theory Spec2Isabelle
  imports Complex_Main "HOL-Library.AList"
begin

section \<open>The Toy of the physics demo (src/demos/physics/toy.js)\<close>

text \<open>
  \<open>Toy\<close> extends \<open>R.objects.PhysicsActor\<close>. The object is a record of the fields the
  methods of toy.js read and write; every method takes the object and returns the
  updated one. A method call on \<open>null\<close> or \<open>undefined\<close> throws a \<open>TypeError\<close> in
  JavaScript; an exception is the \<open>Inl\<close> branch of the result. The engine classes toy.js
  calls (component container, vectors, physics body, mouse joint) are not part of toy.js;
  each is modelled below, as far as toy.js uses it, under a comment that says so, or is a
  parameter of the method that calls it.
\<close>

subsection \<open>Data\<close>

text \<open>
  Points are pairs of coordinates. A sprite carries its bounding box. The physics body
  keeps its scale, its render component (which holds the sprite to draw) and the forces
  applied to it, each with the point of application. A force is a vector object of the
  engine, computed in JavaScript numbers; its type is left open, the type parameter
  \<open>'f\<close>. The mouse joint keeps its name, the name of the body it pulls, its target, and
  \<open>inWorld\<close>, the number of instances of the constraint that the physics world holds.
\<close>

type_synonym point = "real \<times> real"

datatype error = TypeError | ConstructionError | Thrown string

record sprite =
  resourceName :: string
  imageName :: string
  spriteBox :: point

datatype renderComponent = SpriteRender "sprite option"

record 'f physicsBody =
  bodyScale :: real
  renderComp :: "renderComponent option"
  forces :: "('f \<times> point) list"

record mouseJoint =
  jointName :: string
  jointBody :: string
  jointTarget :: "point option"
  inWorld :: nat

datatype 'f component =
  DOMRender | MouseInput | PhysicsBody "'f physicsBody" | MouseJointComponent

record 'f toy =
  components :: "(string \<times> 'f component) list"
  sprites :: "sprite list"
  renderScale :: real
  mouseButtonDown :: bool
  mouseJoint :: "mouseJoint option"
  boundingBox :: "point option"
  position :: point
  rootBody :: "string option"

datatype event = Mouseover | Mouseout | Mousedown | Mouseup | Mousemove point

subsection \<open>Engine classes used by toy.js\<close>

text \<open>
  Modelled from the spec: the spec's difference (clickPoint - bodyPosition), componentwise
  in exact arithmetic. \<open>R.math.Vector2D\<close> is not in toy.js and computes in JavaScript
  numbers, which round and overflow; \<open>clicked\<close> below takes the engine's operations as
  parameters. \<open>vsub\<close> is what the engine's subtraction returns on operands where the
  JavaScript subtraction is exact.
\<close>

definition vsub :: "point \<Rightarrow> point \<Rightarrow> point" where
  "vsub a b = (fst a - fst b, snd a - snd b)"

text \<open>Modelled from the spec: the spec's scaling by the gain, in exact arithmetic:
  what the engine's \<open>mul\<close> returns where the JavaScript product is exact.\<close>

definition vmul :: "point \<Rightarrow> real \<Rightarrow> point" where
  "vmul a k = (fst a * k, snd a * k)"

text \<open>
  Modelled from the spec: \<open>getComponent\<close> of the game object's component container is not
  in toy.js. Components are kept by name; looking up a name that was never added gives no
  component.
\<close>

definition getComponent :: "string \<Rightarrow> 'f toy \<Rightarrow> 'f component option" where
  "getComponent n t = map_of (components t) n"

text \<open>Modelled from the spec: \<open>add\<close> of the component container is not in toy.js. It
  stores the component under its name. The entry \<open>MouseJointComponent\<close> stands for the
  reference to the object held in the field \<open>mouseJoint\<close>.\<close>

definition add :: "string \<Rightarrow> 'f component \<Rightarrow> 'f toy \<Rightarrow> 'f toy" where
  "add n c t = t\<lparr>components := AList.update n c (components t)\<rparr>"

text \<open>
  Modelled from the spec: \<open>R.components.physics.MouseJoint\<close> is not in toy.js. The spec's
  pointer constraint is active while the physics world holds it.
\<close>

definition jointStarted :: "mouseJoint \<Rightarrow> bool" where
  "jointStarted j = (0 < inWorld j)"

text \<open>Modelled from the spec: \<open>start()\<close> of the absent \<open>MouseJoint\<close> inserts the
  constraint into the physics world at the body's current reference point; calling it
  while already started is a no-op.\<close>

definition jointStart :: "point \<Rightarrow> mouseJoint \<Rightarrow> mouseJoint" where
  "jointStart p j =
     (if jointStarted j then j
      else j\<lparr>jointTarget := Some p, inWorld := Suc (inWorld j)\<rparr>)"

text \<open>Modelled from the spec: \<open>stop()\<close> of the absent \<open>MouseJoint\<close> removes the
  constraint from the world; calling it while stopped is a no-op.\<close>

definition jointStop :: "mouseJoint \<Rightarrow> mouseJoint" where
  "jointStop j = (if jointStarted j then j\<lparr>inWorld := 0\<rparr> else j)"

text \<open>Modelled from the spec: \<open>updateTarget(point)\<close> of the absent \<open>MouseJoint\<close>
  moves the target while the constraint is active and has no effect otherwise.\<close>

definition jointUpdateTarget :: "point \<Rightarrow> mouseJoint \<Rightarrow> mouseJoint" where
  "jointUpdateTarget p j = (if jointStarted j then j\<lparr>jointTarget := Some p\<rparr> else j)"

text \<open>Modelled from the spec: \<open>startSimulation\<close> of the absent \<open>MouseJoint\<close>, as toy.js
  calls it on the field \<open>mouseJoint\<close>. The field is \<open>null\<close> until the constructor has
  created the joint; the joint starts at the position of the toy's body.\<close>

definition startSimulation :: "'f toy \<Rightarrow> error + 'f toy" where
  "startSimulation t =
     (case mouseJoint t of
        None \<Rightarrow> Inl TypeError
      | Some j \<Rightarrow> Inr (t\<lparr>mouseJoint := Some (jointStart (position t) j)\<rparr>))"

text \<open>Modelled from the spec: \<open>stopSimulation\<close> of the absent \<open>MouseJoint\<close>, as toy.js
  calls it on the field \<open>mouseJoint\<close>.\<close>

definition stopSimulation :: "'f toy \<Rightarrow> error + 'f toy" where
  "stopSimulation t =
     (case mouseJoint t of
        None \<Rightarrow> Inl TypeError
      | Some j \<Rightarrow> Inr (t\<lparr>mouseJoint := Some (jointStop j)\<rparr>))"

text \<open>Modelled from the spec: \<open>updateTarget(p)\<close> on the field \<open>mouseJoint\<close>, the call the
  spec describes for a pointer move while dragging. No method of toy.js makes it.\<close>

definition updateTarget :: "point \<Rightarrow> 'f toy \<Rightarrow> error + 'f toy" where
  "updateTarget p t =
     (case mouseJoint t of
        None \<Rightarrow> Inl TypeError
      | Some j \<Rightarrow> Inr (t\<lparr>mouseJoint := Some (jointUpdateTarget p j)\<rparr>))"

subsection \<open>The methods of Toy\<close>


text \<open>\<open>setSprite\<close>: \<open>this.sprites[spriteIdx]\<close> is \<open>undefined\<close> out of range, and the
  calls on it, on the physics component and on its render component throw when the
  receiver is missing.\<close>

definition setSprite :: "nat \<Rightarrow> 'f toy \<Rightarrow> error + 'f toy" where
  "setSprite spriteIdx t =
     (if spriteIdx < length (sprites t) then
        (let sprite = sprites t ! spriteIdx;
             t1 = t\<lparr>boundingBox := Some (spriteBox sprite)\<rparr>
         in case getComponent ''physics'' t1 of
              Some (PhysicsBody b) \<Rightarrow>
                (case renderComp b of
                   Some (SpriteRender old) \<Rightarrow>
                     Inr (add ''physics''
                            (PhysicsBody (b\<lparr>renderComp := Some (SpriteRender (Some sprite))\<rparr>)) t1)
                 | None \<Rightarrow> Inl TypeError)
            | _ \<Rightarrow> Inl TypeError)
      else Inl TypeError)"

text \<open>\<open>applyForce\<close>: the call \<open>applyForce(amt, this.getPosition())\<close> on the physics
  component; the body records the force and the point it is applied at.\<close>

definition applyForce :: "'f \<Rightarrow> point \<Rightarrow> 'f toy \<Rightarrow> error + 'f toy" where
  "applyForce amt loc t =
     (case getComponent ''physics'' t of
        Some (PhysicsBody b) \<Rightarrow>
          Inr (add ''physics'' (PhysicsBody (b\<lparr>forces := forces b @ [(amt, position t)]\<rparr>)) t)
      | _ \<Rightarrow> Inl TypeError)"

text \<open>
  \<open>clicked\<close>: \<open>R.math.Vector2D.create(p).sub(this.getPosition()).mul(200)\<close>. The two
  operations of the absent \<open>Vector2D\<close> are parameters: \<open>sub\<close> for \<open>create(p).sub(..)\<close> and
  \<open>mul\<close> for \<open>.mul(..)\<close>, with results of the open force type, so that whatever the
  engine computes in JavaScript numbers is an instance.
\<close>

definition clicked ::
  "(point \<Rightarrow> point \<Rightarrow> 'f) \<Rightarrow> ('f \<Rightarrow> real \<Rightarrow> 'f) \<Rightarrow> point \<Rightarrow> 'f toy \<Rightarrow> error + 'f toy" where
  "clicked sub mul p t = (let force = mul (sub p (position t)) 200 in applyForce force p t)"

definition mouseDown :: "bool \<Rightarrow> 'f toy \<Rightarrow> error + 'f toy" where
  "mouseDown state t =
     (case (if state \<and> \<not> mouseButtonDown t then startSimulation t
            else if mouseButtonDown t \<and> \<not> state then stopSimulation t
            else Inr t) of
        Inl e \<Rightarrow> Inl e
      | Inr t1 \<Rightarrow> Inr (t1\<lparr>mouseButtonDown := state\<rparr>))"

definition mouseOver :: "bool \<Rightarrow> 'f toy \<Rightarrow> error + 'f toy" where
  "mouseOver state t =
     (case setSprite (if state then 1 else 0) t of
        Inl e \<Rightarrow> Inl e
      | Inr t1 \<Rightarrow> (if mouseButtonDown t1 \<and> \<not> state then mouseDown False t1 else Inr t1))"

text \<open>\<open>mouseMove\<close>: the body of the \<open>if\<close> holds a comment only.\<close>

definition mouseMove :: "point \<Rightarrow> 'f toy \<Rightarrow> error + 'f toy" where
  "mouseMove mInfo t = (if mouseButtonDown t then Inr t else Inr t)"

text \<open>The five event callbacks the constructor registers.\<close>

fun fireEvent :: "event \<Rightarrow> 'f toy \<Rightarrow> error + 'f toy" where
  "fireEvent Mouseover t = mouseOver True t"
| "fireEvent Mouseout t = mouseOver False t"
| "fireEvent Mousedown t = mouseDown True t"
| "fireEvent Mouseup t = mouseDown False t"
| "fireEvent (Mousemove mouseInfo) t = mouseMove mouseInfo t"

text \<open>A sequence of events, in order; an exception ends it.\<close>

fun fireEvents :: "event list \<Rightarrow> 'f toy \<Rightarrow> error + 'f toy" where
  "fireEvents [] t = Inr t"
| "fireEvents (e # es) t =
     (case fireEvent e t of Inl err \<Rightarrow> Inl err | Inr t1 \<Rightarrow> fireEvents es t1)"

subsection \<open>The constructor\<close>

text \<open>
  The object when the constructor calls \<open>createPhysicalBody\<close> (lines 69 to 88): the
  prototype's fields, the button flag, the random render scale \<open>random * 1 + 0.8\<close> with
  \<open>random\<close> the value \<open>R.lang.Math2.random()\<close> returned, and the components "draw" and
  "mouse". The DOM element and the reference to the simulation are not modelled.
\<close>

definition beforeBody :: "real \<Rightarrow> 'f toy" where
  "beforeBody random =
     add ''mouse'' MouseInput
       (add ''draw'' DOMRender
          \<lparr>components = [], sprites = [], renderScale = random * 1 + 0.8,
           mouseButtonDown = False, mouseJoint = None, boundingBox = None,
           position = (0, 0), rootBody = None\<rparr>)"

text \<open>
  The constructor. The body hook (the method a toy overrides) and the sprite loader
  \<open>PhysicsDemo.spriteLoader.getSprite\<close> are parameters. The hook runs on the object and
  may throw; its return value is not used. The loader is taken to return a sprite for
  every name.
\<close>

definition Toy_constructor ::
  "real \<Rightarrow> (string \<Rightarrow> string \<Rightarrow> sprite) \<Rightarrow> (string \<Rightarrow> real \<Rightarrow> 'f toy \<Rightarrow> error + 'f toy)
     \<Rightarrow> string \<Rightarrow> string \<Rightarrow> string \<Rightarrow> error + 'f toy" where
  "Toy_constructor random getSprite bodyHook spriteResource spriteName spriteOverName =
     (let t0 = beforeBody random in
      case bodyHook ''physics'' (renderScale t0) t0 of
        Inl e \<Rightarrow> Inl e
      | Inr t1 \<Rightarrow>
          (case getComponent ''physics'' t1 of
             Some (PhysicsBody b) \<Rightarrow>
               (let t2 = add ''physics''
                           (PhysicsBody (b\<lparr>bodyScale := renderScale t1,
                                           renderComp := Some (SpriteRender None)\<rparr>)) t1;
                    t3 = t2\<lparr>rootBody := Some ''physics''\<rparr>;
                    t4 = t3\<lparr>sprites := [getSprite spriteResource spriteName,
                                         getSprite spriteResource spriteOverName]\<rparr>
                in case setSprite 0 t4 of
                     Inl e \<Rightarrow> Inl e
                   | Inr t5 \<Rightarrow>
                       (let t6 = t5\<lparr>position := (50, 0)\<rparr>;
                            t7 = t6\<lparr>mouseJoint :=
                                      Some \<lparr>jointName = ''mousejoint'', jointBody = ''physics'',
                                            jointTarget = None, inWorld = 0\<rparr>\<rparr>
                        in Inr (add ''mousejoint'' MouseJointComponent t7)))
           | _ \<Rightarrow> Inl TypeError))"

text \<open>A body hook as a toy that extends \<open>Toy\<close> supplies it: it adds a physics body
  under the given name.\<close>

definition ballBody :: "string \<Rightarrow> real \<Rightarrow> 'f toy \<Rightarrow> error + 'f toy" where
  "ballBody componentName scale t =
     Inr (add componentName (PhysicsBody \<lparr>bodyScale = 1, renderComp = None, forces = []\<rparr>) t)"


text \<open>A sprite loader.\<close>

definition ballSprite :: "string \<Rightarrow> string \<Rightarrow> sprite" where
  "ballSprite res n = \<lparr>resourceName = res, imageName = n, spriteBox = (60, 60)\<rparr>"

subsection \<open>Observations\<close>

definition jointActive :: "'f toy \<Rightarrow> bool" where
  "jointActive t = (case mouseJoint t of None \<Rightarrow> False | Some j \<Rightarrow> jointStarted j)"

definition activeSprite :: "'f toy \<Rightarrow> sprite option" where
  "activeSprite t =
     (case getComponent ''physics'' t of
        Some (PhysicsBody b) \<Rightarrow>
          (case renderComp b of Some (SpriteRender s) \<Rightarrow> s | None \<Rightarrow> None)
      | _ \<Rightarrow> None)"

definition appliedForces :: "'f toy \<Rightarrow> ('f \<times> point) list" where
  "appliedForces t =
     (case getComponent ''physics'' t of Some (PhysicsBody b) \<Rightarrow> forces b | _ \<Rightarrow> [])"

definition jointInstances :: "'f toy \<Rightarrow> nat" where
  "jointInstances t = (case mouseJoint t of None \<Rightarrow> 0 | Some j \<Rightarrow> inWorld j)"

definition jointTargetOf :: "'f toy \<Rightarrow> point option" where
  "jointTargetOf t = (case mouseJoint t of None \<Rightarrow> None | Some j \<Rightarrow> jointTarget j)"

subsection \<open>The spec's hover state\<close>

text \<open>
  toy.js keeps no hover flag: \<open>mouseOver(state)\<close> receives it and selects the sprite. The
  spec's \<open>hoverState\<close> is a function of the events so far: true after a pointer enter,
  false after a pointer leave and at the start, unchanged by every other event.
\<close>

fun hoverStep :: "bool \<Rightarrow> event \<Rightarrow> bool" where
  "hoverStep h Mouseover = True"
| "hoverStep h Mouseout = False"
| "hoverStep h e = h"

definition hoverState :: "event list \<Rightarrow> bool" where
  "hoverState evs = foldl hoverStep False evs"



subsection \<open>The invariant of a constructed toy\<close>

text \<open>
  With hover state \<open>h\<close>: two sprites, the one selected by \<open>h\<close> on the render component
  and as bounding box, the joint created, and in the world once while the button is down
  and not at all while it is up.
\<close>

definition settled :: "bool \<Rightarrow> 'f toy \<Rightarrow> bool" where
  "settled h t =
     (length (sprites t) = 2 \<and>
      activeSprite t = Some (sprites t ! (if h then 1 else 0)) \<and>
      boundingBox t = Some (spriteBox (sprites t ! (if h then 1 else 0))) \<and>
      jointInstances t = (if mouseButtonDown t then 1 else 0) \<and>
      mouseJoint t \<noteq> None)"

subsection \<open>A concrete toy\<close>

text \<open>The toy \<open>Toy_constructor (1/2) ballSprite ballBody ''toys'' ''ball'' ''ball_over''\<close>
  returns, the same toy with the button down, and after the drag was released.\<close>

definition ballToy :: "point toy" where
  "ballToy =
     \<lparr>components =
        [(''draw'', DOMRender), (''mouse'', MouseInput),
         (''physics'',
          PhysicsBody
            \<lparr>bodyScale = 13 / 10,
             renderComp = Some (SpriteRender (Some (ballSprite ''toys'' ''ball''))),
             forces = []\<rparr>),
         (''mousejoint'', MouseJointComponent)],
      sprites = [ballSprite ''toys'' ''ball'', ballSprite ''toys'' ''ball_over''],
      renderScale = 13 / 10, mouseButtonDown = False,
      mouseJoint =
        Some \<lparr>jointName = ''mousejoint'', jointBody = ''physics'',
              jointTarget = None, inWorld = 0\<rparr>,
      boundingBox = Some (60, 60), position = (50, 0), rootBody = Some ''physics''\<rparr>"

definition ballDragged :: "point toy" where
  "ballDragged =
     ballToy\<lparr>mouseJoint :=
               Some \<lparr>jointName = ''mousejoint'', jointBody = ''physics'',
                     jointTarget = Some (50, 0), inWorld = 1\<rparr>,
             mouseButtonDown := True\<rparr>"

definition ballReleased :: "point toy" where
  "ballReleased =
     ballToy\<lparr>mouseJoint :=
               Some \<lparr>jointName = ''mousejoint'', jointBody = ''physics'',
                     jointTarget = Some (50, 0), inWorld = 0\<rparr>\<rparr>"

section \<open>Properties\<close>

subsection \<open>The constructor and the invariant\<close>

lemma constructor_settled:
  assumes "Toy_constructor random getSprite bodyHook res n on = Inr t"
    and "\<not> mouseButtonDown t"
  shows "settled False t \<and> sprites t = [getSprite res n, getSprite res on] \<and> position t = (50, 0)"
  using assms
  by (auto simp: Toy_constructor_def settled_def setSprite_def Let_def getComponent_def add_def
      update_conv' activeSprite_def jointInstances_def
      split: sum.splits option.splits component.splits renderComponent.splits if_splits)

lemma activeSprite_body:
  assumes "activeSprite t = Some sp"
  shows "\<exists>b. getComponent ''physics'' t = Some (PhysicsBody b) \<and>
           renderComp b = Some (SpriteRender (Some sp))"
  using assms
  by (auto simp: activeSprite_def split: option.splits component.splits renderComponent.splits)

lemma setSprite_settled:
  assumes "settled h t"
  shows "\<exists>s. setSprite (if h' then 1 else 0) t = Inr s \<and> settled h' s \<and>
           mouseButtonDown s = mouseButtonDown t \<and> mouseJoint s = mouseJoint t \<and>
           sprites s = sprites t \<and> position s = position t"
proof -
  from assms have "activeSprite t = Some (sprites t ! (if h then 1 else 0))"
    by (simp add: settled_def)
  from activeSprite_body [OF this] obtain b where
    b: "getComponent ''physics'' t = Some (PhysicsBody b)"
       "renderComp b = Some (SpriteRender (Some (sprites t ! (if h then 1 else 0))))"
    by blast
  show ?thesis
    using assms b
    by (cases h')
      (simp_all add: settled_def setSprite_def Let_def getComponent_def add_def
        update_conv' activeSprite_def jointInstances_def)
qed

lemma setSprite_unchanged:
  assumes "i < length (sprites t)"
    and "getComponent ''physics'' t = Some (PhysicsBody b)"
    and "renderComp b = Some (SpriteRender (Some (sprites t ! i)))"
    and "boundingBox t = Some (spriteBox (sprites t ! i))"
  shows "setSprite i t = Inr t"
proof -
  have same_body: "b\<lparr>renderComp := Some (SpriteRender (Some (sprites t ! i)))\<rparr> = b"
    using assms(3) by (cases b) simp
  have same_components: "AList.update ''physics'' (PhysicsBody b) (components t) = components t"
    using assms(2) by (simp add: getComponent_def update_triv)
  have same_box: "t\<lparr>boundingBox := Some (spriteBox (sprites t ! i))\<rparr> = t"
    using assms(4) by (cases t) simp
  have "setSprite i t =
          Inr (add ''physics''
                 (PhysicsBody (b\<lparr>renderComp := Some (SpriteRender (Some (sprites t ! i)))\<rparr>))
                 (t\<lparr>boundingBox := Some (spriteBox (sprites t ! i))\<rparr>))"
    using assms(1,2,3) by (simp add: setSprite_def Let_def getComponent_def)
  also have "\<dots> = Inr (add ''physics'' (PhysicsBody b) t)"
    by (simp only: same_body same_box)
  also have "\<dots> = Inr t"
    by (simp add: add_def same_components)
  finally show ?thesis .
qed

lemma setSprite_same:
  assumes "settled h t"
  shows "setSprite (if h then 1 else 0) t = Inr t"
proof -
  from assms have "activeSprite t = Some (sprites t ! (if h then 1 else 0))"
    by (simp add: settled_def)
  from activeSprite_body [OF this] obtain b where
    b: "getComponent ''physics'' t = Some (PhysicsBody b)"
       "renderComp b = Some (SpriteRender (Some (sprites t ! (if h then 1 else 0))))"
    by blast
  from assms have "(if h then 1 else 0) < length (sprites t)"
    and "boundingBox t = Some (spriteBox (sprites t ! (if h then 1 else 0)))"
    by (simp_all add: settled_def)
  with b show ?thesis
    by (intro setSprite_unchanged)
qed

lemma mouseDown_settled:
  assumes "settled h t"
  shows "\<exists>s. mouseDown b t = Inr s \<and> settled h s \<and> mouseButtonDown s = b \<and>
           sprites s = sprites t \<and> position s = position t"
proof -
  from assms obtain j where j: "mouseJoint t = Some j"
    by (auto simp: settled_def)
  show ?thesis
    using assms j
    by (cases b; cases "mouseButtonDown t")
      (simp_all add: settled_def mouseDown_def startSimulation_def stopSimulation_def
        jointStart_def jointStop_def jointStarted_def activeSprite_def getComponent_def
        jointInstances_def)
qed

lemma mouseDown_same:
  assumes "mouseButtonDown t = b"
  shows "mouseDown b t = Inr t"
  using assms by (auto simp: mouseDown_def)

lemma fireEvent_settled:
  assumes "settled h t"
  shows "\<exists>s. fireEvent e t = Inr s \<and> settled (hoverStep h e) s \<and>
           sprites s = sprites t \<and> position s = position t"
proof (cases e)
  case Mouseover
  from setSprite_settled [OF assms, of True] show ?thesis
    using Mouseover by (auto simp: mouseOver_def)
next
  case Mouseout
  from setSprite_settled [OF assms, of False] obtain s1 where
    s1: "setSprite 0 t = Inr s1" "settled False s1" "sprites s1 = sprites t" "position s1 = position t"
    by auto
  from mouseDown_settled [OF s1(2), of False] s1 show ?thesis
    using Mouseout by (auto simp: mouseOver_def)
next
  case Mousedown
  with mouseDown_settled [OF assms, of True] show ?thesis by auto
next
  case Mouseup
  with mouseDown_settled [OF assms, of False] show ?thesis by auto
next
  case (Mousemove p)
  with assms show ?thesis by (simp add: mouseMove_def)
qed

lemma fireEvents_settled:
  assumes "settled h t"
  shows "\<exists>s. fireEvents evs t = Inr s \<and> settled (foldl hoverStep h evs) s \<and>
           sprites s = sprites t \<and> position s = position t"
  using assms
proof (induction evs arbitrary: h t)
  case Nil
  then show ?case by simp
next
  case (Cons e evs)
  from fireEvent_settled [OF Cons.prems, of e] obtain s1 where
    s1: "fireEvent e t = Inr s1" "settled (hoverStep h e) s1" "sprites s1 = sprites t"
        "position s1 = position t"
    by auto
  from Cons.IH [OF s1(2)] s1 show ?case by auto
qed

lemma settled_joint:
  assumes "settled h t"
  shows "jointActive t = mouseButtonDown t"
  using assms by (auto simp: settled_def jointActive_def jointInstances_def jointStarted_def split: option.splits)

lemma constructed_run:
  assumes "Toy_constructor random getSprite bodyHook res n on = Inr t"
    and "\<not> mouseButtonDown t"
  shows "\<exists>s. fireEvents evs t = Inr s \<and> settled (hoverState evs) s \<and>
           sprites s = [getSprite res n, getSprite res on] \<and> position s = (50, 0)"
proof -
  from constructor_settled [OF assms] have t: "settled False t"
    "sprites t = [getSprite res n, getSprite res on]" "position t = (50, 0)"
    by simp_all
  from fireEvents_settled [OF t(1), of evs] t(2,3) show ?thesis
    by (auto simp: hoverState_def)
qed

lemma mouseOver_out:
  assumes "settled h s"
  shows "\<exists>s1 s'. setSprite 0 s = Inr s1 \<and> settled False s1 \<and>
           mouseButtonDown s1 = mouseButtonDown s \<and> sprites s1 = sprites s \<and>
           fireEvent Mouseout s = (if mouseButtonDown s then fireEvent Mouseup s1 else Inr s1) \<and>
           fireEvent Mouseout s = Inr s' \<and> settled False s' \<and> \<not> mouseButtonDown s' \<and>
           sprites s' = sprites s"
proof -
  from setSprite_settled [OF assms, of False] obtain s1 where
    s1: "setSprite 0 s = Inr s1" "settled False s1" "mouseButtonDown s1 = mouseButtonDown s"
        "sprites s1 = sprites s"
    by auto
  from mouseDown_settled [OF s1(2), of False] obtain s2 where
    s2: "mouseDown False s1 = Inr s2" "settled False s2" "\<not> mouseButtonDown s2"
        "sprites s2 = sprites s1"
    by auto
  show ?thesis
  proof (cases "mouseButtonDown s")
    case True
    with s1 s2 show ?thesis by (simp add: mouseOver_def)
  next
    case False
    with s1 show ?thesis by (simp add: mouseOver_def)
  qed
qed

subsection \<open>The concrete toy\<close>

lemma ballToy_constructed:
  "Toy_constructor (1/2) ballSprite ballBody ''toys'' ''ball'' ''ball_over'' = Inr ballToy"
  by (simp add: Toy_constructor_def beforeBody_def ballBody_def ballToy_def setSprite_def
      getComponent_def add_def Let_def ballSprite_def)

lemma ballToy_up: "\<not> mouseButtonDown ballToy"
  by (simp add: ballToy_def)

lemma ballToy_pressed: "fireEvent Mousedown ballToy = Inr ballDragged"
  by (simp add: mouseDown_def startSimulation_def jointStart_def jointStarted_def
      ballToy_def ballDragged_def)

lemma ballDragged_moved: "fireEvent (Mousemove p) ballDragged = Inr ballDragged"
  by (simp add: mouseMove_def)

lemma ballDragged_left: "fireEvent Mouseout ballDragged = Inr ballReleased"
  by (simp add: mouseOver_def mouseDown_def stopSimulation_def jointStop_def jointStarted_def
      setSprite_def getComponent_def add_def Let_def ballToy_def ballDragged_def ballReleased_def
      ballSprite_def)

lemma ballToy_pushed:
  "applyForce (3, 4) (7, 7) ballToy =
     Inr (add ''physics''
            (PhysicsBody
               \<lparr>bodyScale = 13 / 10,
                renderComp = Some (SpriteRender (Some (ballSprite ''toys'' ''ball''))),
                forces = [((3, 4), (50, 0))]\<rparr>) ballToy)"
  by (simp add: applyForce_def getComponent_def ballToy_def)

subsection \<open>Drag state and pointer constraint\<close>

text \<open>
  Claim C1. For every sequence of pointer events applied to a constructed toy, the events
  all return, and after them the pointer constraint is active if and only if
  \<open>mouseButtonDown\<close> (the drag state) is true. The sequence is arbitrary, so this holds
  after each event. The constructor sets the flag to false before it calls the body hook;
  the toy is one whose hook left it so.
\<close>

theorem drag_iff_constraint_active:
  assumes "Toy_constructor random getSprite bodyHook res n on = Inr t"
    and "\<not> mouseButtonDown t"
  shows "\<exists>s. fireEvents evs t = Inr s \<and> jointActive s = mouseButtonDown s"
proof -
  from constructed_run [OF assms, of evs] obtain s where
    "fireEvents evs t = Inr s" "settled (hoverState evs) s"
    by blast
  with settled_joint show ?thesis by blast
qed

theorem drag_iff_constraint_active_witness:
  "Toy_constructor (1/2) ballSprite ballBody ''toys'' ''ball'' ''ball_over'' = Inr ballToy \<and>
   \<not> mouseButtonDown ballToy \<and>
   (\<exists>s. fireEvents [Mousedown, Mousemove (10, 5), Mouseout, Mousedown] ballToy = Inr s \<and>
        jointActive s = mouseButtonDown s)"
proof -
  note run = drag_iff_constraint_active [OF ballToy_constructed ballToy_up,
      of "[Mousedown, Mousemove (10, 5), Mouseout, Mousedown]"]
  from run ballToy_constructed ballToy_up show ?thesis by blast
qed

subsection \<open>Pointer move\<close>

text \<open>
  Claim C2 says that a pointer move while dragging calls \<open>updateTarget\<close> with the pointer
  point, so that after a press and a move to (10, 5) the constraint target is (10, 5).
  Counterexample: on the concrete toy a press and a move to (10, 5), a press and a move
  to (20, 7), and a press alone all return the same object, so the target does not follow
  the pointer; it is not (10, 5), and \<open>updateTarget (10, 5)\<close> would have given another
  object.
\<close>

theorem pointer_move_target_counterexample:
  "fireEvents [Mousedown, Mousemove (10, 5)] ballToy = Inr ballDragged \<and>
   fireEvents [Mousedown, Mousemove (20, 7)] ballToy = Inr ballDragged \<and>
   fireEvents [Mousedown] ballToy = Inr ballDragged \<and>
   jointTargetOf ballDragged \<noteq> Some (10, 5) \<and>
   updateTarget (10, 5) ballDragged \<noteq> Inr ballDragged"
proof -
  have "fireEvents [Mousedown, Mousemove (10, 5)] ballToy = Inr ballDragged"
    by (simp add: ballToy_pressed ballDragged_moved del: fireEvent.simps)
  moreover have "fireEvents [Mousedown, Mousemove (20, 7)] ballToy = Inr ballDragged"
    by (simp add: ballToy_pressed ballDragged_moved del: fireEvent.simps)
  moreover have "fireEvents [Mousedown] ballToy = Inr ballDragged"
    by (simp add: ballToy_pressed del: fireEvent.simps)
  moreover have "jointTargetOf ballDragged \<noteq> Some (10, 5)"
    by (simp add: jointTargetOf_def ballDragged_def)
  moreover have "updateTarget (10, 5) ballDragged \<noteq> Inr ballDragged"
    by (simp add: updateTarget_def jointUpdateTarget_def jointStarted_def ballDragged_def
        ballToy_def)
  ultimately show ?thesis by simp
qed

text \<open>
  Claim C2, amended. A pointer move leaves the toy and its pointer constraint unchanged,
  whether the button is down or not: \<open>mouseMove\<close> makes no call on the constraint. On a
  constructed toy a press followed by a move to (10, 5) returns what the press alone
  returns, with the drag state true and the constraint active.
\<close>

theorem pointer_move_changes_nothing:
  assumes "Toy_constructor random getSprite bodyHook res n on = Inr t"
    and "\<not> mouseButtonDown t"
  shows "fireEvent (Mousemove p) s = Inr s \<and>
         fireEvents [Mousedown, Mousemove (10, 5)] t = fireEvents [Mousedown] t \<and>
         (\<exists>d. fireEvents [Mousedown, Mousemove (10, 5)] t = Inr d \<and> mouseButtonDown d \<and>
              jointActive d)"
proof -
  have still: "fireEvent (Mousemove p) s = Inr s"
    by (simp add: mouseMove_def)
  from constructed_run [OF assms, of "[Mousedown]"] obtain d where
    d: "fireEvents [Mousedown] t = Inr d" "settled (hoverState [Mousedown]) d"
    by blast
  from d(1) have pressed: "fireEvent Mousedown t = Inr d"
    by (simp split: sum.splits)
  from mouseDown_settled [OF constructor_settled [OF assms, THEN conjunct1], of True] pressed
  have down: "mouseButtonDown d"
    by auto
  from settled_joint [OF d(2)] down have active: "jointActive d"
    by simp
  from pressed have both: "fireEvents [Mousedown, Mousemove (10, 5)] t = Inr d"
    by (simp add: mouseMove_def)
  from still both d(1) down active show ?thesis
    by simp
qed

theorem pointer_move_changes_nothing_witness:
  "Toy_constructor (1/2) ballSprite ballBody ''toys'' ''ball'' ''ball_over'' = Inr ballToy \<and>
   \<not> mouseButtonDown ballToy \<and>
   fireEvent (Mousemove (10, 5)) ballDragged = Inr ballDragged \<and>
   fireEvents [Mousedown, Mousemove (10, 5)] ballToy = fireEvents [Mousedown] ballToy \<and>
   (\<exists>d. fireEvents [Mousedown, Mousemove (10, 5)] ballToy = Inr d \<and> mouseButtonDown d \<and>
        jointActive d)"
proof -
  note unmoved = pointer_move_changes_nothing [OF ballToy_constructed ballToy_up,
      of "(10, 5)" ballDragged]
  from unmoved ballToy_constructed ballToy_up show ?thesis by blast
qed

subsection \<open>Pointer leave\<close>

text \<open>
  Claim C3 says that a pointer leave while dragging does not release the drag.
  Counterexample: on the concrete toy, after a press the drag state is true and the
  constraint active; the pointer leave then returns the toy with the drag state false and
  the constraint stopped.
\<close>

theorem pointer_leave_keeps_drag_counterexample:
  "fireEvent Mousedown ballToy = Inr ballDragged \<and>
   mouseButtonDown ballDragged \<and> jointActive ballDragged \<and>
   fireEvent Mouseout ballDragged = Inr ballReleased \<and>
   \<not> mouseButtonDown ballReleased \<and> \<not> jointActive ballReleased"
proof -
  have "mouseButtonDown ballDragged \<and> jointActive ballDragged"
    by (simp add: jointActive_def jointStarted_def ballDragged_def)
  moreover have "\<not> mouseButtonDown ballReleased \<and> \<not> jointActive ballReleased"
    by (simp add: jointActive_def jointStarted_def ballReleased_def ballToy_def)
  ultimately show ?thesis
    using ballToy_pressed ballDragged_left by blast
qed

text \<open>
  Claim C3, amended. In every state a constructed toy reaches with the drag state true, a
  pointer leave releases the drag: the drag state becomes false, the constraint is
  stopped, and the sprite reverts to the default image, the first of the two.
\<close>

theorem pointer_leave_releases_drag:
  assumes "Toy_constructor random getSprite bodyHook res n on = Inr t"
    and "\<not> mouseButtonDown t"
    and "fireEvents evs t = Inr s"
    and "mouseButtonDown s"
  shows "\<exists>s'. fireEvent Mouseout s = Inr s' \<and> \<not> mouseButtonDown s' \<and> \<not> jointActive s' \<and>
           activeSprite s' = Some (getSprite res n)"
proof -
  from constructed_run [OF assms(1,2), of evs] assms(3)
  have s: "settled (hoverState evs) s" "sprites s = [getSprite res n, getSprite res on]"
    by auto
  from mouseOver_out [OF s(1)] obtain s' where
    s': "fireEvent Mouseout s = Inr s'" "settled False s'" "\<not> mouseButtonDown s'"
        "sprites s' = sprites s"
    by blast
  from settled_joint [OF s'(2)] s'(3) have "\<not> jointActive s'" by simp
  moreover from s'(2,4) s(2) have "activeSprite s' = Some (getSprite res n)"
    by (simp add: settled_def)
  ultimately show ?thesis using s'(1,3) by blast
qed

theorem pointer_leave_releases_drag_witness:
  "Toy_constructor (1/2) ballSprite ballBody ''toys'' ''ball'' ''ball_over'' = Inr ballToy \<and>
   \<not> mouseButtonDown ballToy \<and>
   fireEvents [Mousedown] ballToy = Inr ballDragged \<and>
   mouseButtonDown ballDragged \<and>
   (\<exists>s'. fireEvent Mouseout ballDragged = Inr s' \<and> \<not> mouseButtonDown s' \<and>
         \<not> jointActive s' \<and> activeSprite s' = Some (ballSprite ''toys'' ''ball''))"
proof -
  have run: "fireEvents [Mousedown] ballToy = Inr ballDragged"
    by (simp add: ballToy_pressed del: fireEvent.simps)
  have down: "mouseButtonDown ballDragged"
    by (simp add: ballDragged_def)
  note released = pointer_leave_releases_drag [OF ballToy_constructed ballToy_up run down]
  from released ballToy_constructed ballToy_up run down show ?thesis by blast
qed

text \<open>
  Claim C4. In every state a constructed toy reaches, a pointer leave selects the default
  image, and when the drag state is true it goes on as a pointer release does from there:
  the result is that of \<open>mouseup\<close> on the toy with the default image selected. Afterwards
  the spec's hover state is false, the drag state is false and the constraint is stopped.
\<close>

theorem pointer_leave_implicit_release:
  assumes "Toy_constructor random getSprite bodyHook res n on = Inr t"
    and "\<not> mouseButtonDown t"
    and "fireEvents evs t = Inr s"
  shows "\<exists>s1 s'. setSprite 0 s = Inr s1 \<and> mouseButtonDown s1 = mouseButtonDown s \<and>
           fireEvent Mouseout s = (if mouseButtonDown s then fireEvent Mouseup s1 else Inr s1) \<and>
           fireEvent Mouseout s = Inr s' \<and>
           activeSprite s' = Some (getSprite res n) \<and>
           \<not> hoverState (evs @ [Mouseout]) \<and>
           \<not> mouseButtonDown s' \<and> \<not> jointActive s'"
proof -
  from constructed_run [OF assms(1,2), of evs] assms(3)
  have s: "settled (hoverState evs) s" "sprites s = [getSprite res n, getSprite res on]"
    by auto
  from mouseOver_out [OF s(1)] obtain s1 s' where
    out: "setSprite 0 s = Inr s1" "mouseButtonDown s1 = mouseButtonDown s"
         "fireEvent Mouseout s = (if mouseButtonDown s then fireEvent Mouseup s1 else Inr s1)"
         "fireEvent Mouseout s = Inr s'" "settled False s'" "\<not> mouseButtonDown s'"
         "sprites s' = sprites s"
    by blast
  from settled_joint [OF out(5)] out(6) have "\<not> jointActive s'" by simp
  moreover from out(5,7) s(2) have "activeSprite s' = Some (getSprite res n)"
    by (simp add: settled_def)
  moreover have "\<not> hoverState (evs @ [Mouseout])"
    by (simp add: hoverState_def)
  ultimately show ?thesis using out(1,2,3,4,6) by blast
qed

theorem pointer_leave_implicit_release_witness:
  "Toy_constructor (1/2) ballSprite ballBody ''toys'' ''ball'' ''ball_over'' = Inr ballToy \<and>
   \<not> mouseButtonDown ballToy \<and>
   fireEvents [Mousedown] ballToy = Inr ballDragged \<and>
   (\<exists>s1 s'. setSprite 0 ballDragged = Inr s1 \<and> mouseButtonDown s1 \<and>
        fireEvent Mouseout ballDragged = fireEvent Mouseup s1 \<and>
        fireEvent Mouseout ballDragged = Inr s' \<and>
        activeSprite s' = Some (ballSprite ''toys'' ''ball'') \<and>
        \<not> mouseButtonDown s' \<and> \<not> jointActive s')"
proof -
  have run: "fireEvents [Mousedown] ballToy = Inr ballDragged"
    by (simp add: ballToy_pressed del: fireEvent.simps)
  have down: "mouseButtonDown ballDragged"
    by (simp add: ballDragged_def)
  note released = pointer_leave_implicit_release [OF ballToy_constructed ballToy_up run]
  from released down ballToy_constructed ballToy_up run show ?thesis by auto
qed

subsection \<open>Construction failure\<close>




subsection \<open>Image selection\<close>

text \<open>
  Claim C6. After every sequence of events on a constructed toy the sprite list is the
  pair the constructor loaded, and the sprite on the render component is the second of
  them when the spec's hover state is true and the first when it is false, whatever the
  drag state. The render component holds one sprite, so exactly one image is active.
\<close>

theorem sprite_follows_hover:
  assumes "Toy_constructor random getSprite bodyHook res n on = Inr t"
    and "\<not> mouseButtonDown t"
  shows "\<exists>s. fireEvents evs t = Inr s \<and>
           sprites s = [getSprite res n, getSprite res on] \<and>
           activeSprite s = Some (sprites s ! (if hoverState evs then 1 else 0))"
proof -
  from constructed_run [OF assms, of evs] obtain s where
    "fireEvents evs t = Inr s" "settled (hoverState evs) s"
    "sprites s = [getSprite res n, getSprite res on]"
    by blast
  then show ?thesis by (auto simp: settled_def)
qed

theorem sprite_follows_hover_witness:
  "Toy_constructor (1/2) ballSprite ballBody ''toys'' ''ball'' ''ball_over'' = Inr ballToy \<and>
   \<not> mouseButtonDown ballToy \<and>
   hoverState [Mouseover, Mousedown] \<and>
   (\<exists>s. fireEvents [Mouseover, Mousedown] ballToy = Inr s \<and> mouseButtonDown s \<and>
        sprites s = [ballSprite ''toys'' ''ball'', ballSprite ''toys'' ''ball_over''] \<and>
        activeSprite s = Some (ballSprite ''toys'' ''ball_over''))"
proof -
  have hover: "hoverState [Mouseover, Mousedown]"
    by (simp add: hoverState_def)
  note follows = sprite_follows_hover [OF ballToy_constructed ballToy_up,
      of "[Mouseover, Mousedown]"]
  then obtain s where
    s: "fireEvents [Mouseover, Mousedown] ballToy = Inr s"
       "sprites s = [ballSprite ''toys'' ''ball'', ballSprite ''toys'' ''ball_over'']"
       "activeSprite s = Some (sprites s ! (if hoverState [Mouseover, Mousedown] then 1 else 0))"
    by blast
  have "\<exists>d. fireEvents [Mouseover, Mousedown] ballToy = Inr d \<and> mouseButtonDown d"
    by (simp add: mouseOver_def mouseDown_def setSprite_def startSimulation_def jointStart_def
        jointStarted_def getComponent_def add_def Let_def ballToy_def)
  with s(1) have "mouseButtonDown s" by auto
  with s hover ballToy_constructed ballToy_up show ?thesis by auto
qed

subsection \<open>Repeated press and release\<close>

text \<open>
  Claim C7. Starting and stopping the constraint are idempotent, and so are the events:
  from every state a constructed toy reaches, a second press in a row returns the toy of
  the first, with one instance of the constraint in the world; a second release in a row
  returns the toy of the first, with none. The second press and the second release make
  no call on the constraint at all: the button flag already has the new value.
\<close>

theorem press_and_release_idempotent:
  assumes "Toy_constructor random getSprite bodyHook res n on = Inr t"
    and "\<not> mouseButtonDown t"
  shows "jointStart q (jointStart p j) = jointStart p j \<and>
         jointStop (jointStop j) = jointStop j \<and>
         (\<exists>s d r. fireEvents evs t = Inr s \<and>
            fireEvent Mousedown s = Inr d \<and> fireEvent Mousedown d = Inr d \<and>
            jointInstances d = 1 \<and> jointActive d \<and>
            fireEvent Mouseup s = Inr r \<and> fireEvent Mouseup r = Inr r \<and>
            jointInstances r = 0 \<and> \<not> jointActive r)"
proof -
  have start: "jointStart q (jointStart p j) = jointStart p j"
    by (simp add: jointStart_def jointStarted_def)
  have stop: "jointStop (jointStop j) = jointStop j"
    by (simp add: jointStop_def jointStarted_def)
  from constructed_run [OF assms, of evs] obtain s where
    s: "fireEvents evs t = Inr s" "settled (hoverState evs) s"
    by blast
  from mouseDown_settled [OF s(2), of True] obtain d where
    d: "mouseDown True s = Inr d" "settled (hoverState evs) d" "mouseButtonDown d"
    by auto
  from mouseDown_settled [OF s(2), of False] obtain r where
    r: "mouseDown False s = Inr r" "settled (hoverState evs) r" "\<not> mouseButtonDown r"
    by auto
  from d(3) have dd: "mouseDown True d = Inr d"
    by (simp add: mouseDown_same)
  from r(3) have rr: "mouseDown False r = Inr r"
    by (simp add: mouseDown_same)
  from d(2,3) have d1: "jointInstances d = 1" "jointActive d"
    using settled_joint [OF d(2)] by (simp_all add: settled_def)
  from r(2,3) have r0: "jointInstances r = 0" "\<not> jointActive r"
    using settled_joint [OF r(2)] by (simp_all add: settled_def)
  from s(1) d(1) dd d1 r(1) rr r0 have
    "\<exists>s d r. fireEvents evs t = Inr s \<and>
            fireEvent Mousedown s = Inr d \<and> fireEvent Mousedown d = Inr d \<and>
            jointInstances d = 1 \<and> jointActive d \<and>
            fireEvent Mouseup s = Inr r \<and> fireEvent Mouseup r = Inr r \<and>
            jointInstances r = 0 \<and> \<not> jointActive r"
    by auto
  with start stop show ?thesis by blast
qed

theorem press_and_release_idempotent_witness:
  "Toy_constructor (1/2) ballSprite ballBody ''toys'' ''ball'' ''ball_over'' = Inr ballToy \<and>
   \<not> mouseButtonDown ballToy \<and>
   (\<exists>s d r. fireEvents [Mouseover, Mousedown, Mousedown] ballToy = Inr s \<and>
        fireEvent Mousedown s = Inr d \<and> fireEvent Mousedown d = Inr d \<and>
        jointInstances d = 1 \<and> jointActive d \<and>
        fireEvent Mouseup s = Inr r \<and> fireEvent Mouseup r = Inr r \<and>
        jointInstances r = 0 \<and> \<not> jointActive r)"
proof -
  note twice = press_and_release_idempotent [OF ballToy_constructed ballToy_up,
      of "(0, 0)" "(0, 0)" "\<lparr>jointName = ''mousejoint'', jointBody = ''physics'',
              jointTarget = None, inWorld = 0\<rparr>" "[Mouseover, Mousedown, Mousedown]"]
  from twice ballToy_constructed ballToy_up show ?thesis by blast
qed

subsection \<open>Forces\<close>

text \<open>
  Claim C8. For every click point \<open>p\<close> and toy position, \<open>clicked(p)\<close> takes the difference
  of \<open>p\<close> and the position, scales it by the gain 200, and applies the result at the
  toy's current position. The difference and the scaling are the engine's vector
  operations, whatever they compute in JavaScript numbers. With the toy at the origin and
  a click at (5, 0), where 5 - 0 and 5 * 200 are exact, the force is (1000, 0): magnitude
  1000 along +x.
\<close>

theorem clicked_applies_scaled_offset:
  assumes "getComponent ''physics'' t = Some (PhysicsBody b)"
  shows "\<exists>s. clicked sub mul p t = Inr s \<and>
           appliedForces s = appliedForces t @ [(mul (sub p (position t)) 200, position t)]"
  using assms
  by (simp add: clicked_def applyForce_def appliedForces_def getComponent_def add_def
      update_conv')

theorem clicked_applies_scaled_offset_witness:
  "getComponent ''physics'' (ballToy\<lparr>position := (0, 0)\<rparr>) =
     Some (PhysicsBody
             \<lparr>bodyScale = 13 / 10,
              renderComp = Some (SpriteRender (Some (ballSprite ''toys'' ''ball''))),
              forces = []\<rparr>) \<and>
   (\<exists>s. clicked vsub vmul (5, 0) (ballToy\<lparr>position := (0, 0)\<rparr>) = Inr s \<and>
        appliedForces s = [((1000, 0), (0, 0))])"
proof -
  have body: "getComponent ''physics'' (ballToy\<lparr>position := (0, 0)\<rparr>) =
     Some (PhysicsBody
             \<lparr>bodyScale = 13 / 10,
              renderComp = Some (SpriteRender (Some (ballSprite ''toys'' ''ball''))),
              forces = []\<rparr>)"
    by (simp add: getComponent_def ballToy_def)
  have none: "appliedForces (ballToy\<lparr>position := (0, 0)\<rparr>) = []"
    by (simp add: appliedForces_def body)
  have force: "vmul (vsub (5, 0) (0, 0)) 200 = (1000, 0)"
    by (simp add: vsub_def vmul_def)
  from clicked_applies_scaled_offset [OF body, of vsub vmul "(5, 0)"] body none force
  show ?thesis
    by simp
qed

subsection \<open>Out-of-order events\<close>

text \<open>
  Claim C9 says that every illegal or out-of-order event is a no-op. The spec's table
  allows a press only with the pointer inside the bounds. Counterexample: on the concrete
  toy, before any event, the spec's hover state is false and the button is up; the press
  returns another object, with the drag state true and the constraint active.
  \<open>mouseDown\<close> does not test hover.
\<close>

theorem press_outside_bounds_counterexample:
  "\<not> hoverState [] \<and> \<not> mouseButtonDown ballToy \<and>
   fireEvent Mousedown ballToy = Inr ballDragged \<and>
   ballDragged \<noteq> ballToy \<and> mouseButtonDown ballDragged \<and> jointActive ballDragged"
proof -
  have "\<not> hoverState []"
    by (simp add: hoverState_def)
  moreover have "mouseButtonDown ballDragged \<and> jointActive ballDragged"
    by (simp add: jointActive_def jointStarted_def ballDragged_def)
  moreover from this ballToy_up have "ballDragged \<noteq> ballToy"
    by auto
  ultimately show ?thesis
    using ballToy_up ballToy_pressed by simp
qed

text \<open>
  Claim C9, amended. Every sequence of events on a constructed toy returns: no handler
  throws. In the state reached, a release while the drag state is false, a press while it
  is true, and a pointer move (in either state) are no-ops that return the very same toy.
  A press is not a no-op while the drag state is false, whatever the hover state: in every
  state reached it returns a toy with the drag state true and the constraint active.
\<close>

theorem handlers_return_and_repeats_change_nothing:
  assumes "Toy_constructor random getSprite bodyHook res n on = Inr t"
    and "\<not> mouseButtonDown t"
  shows "\<exists>s. fireEvents evs t = Inr s \<and>
           (if mouseButtonDown s then fireEvent Mousedown s else fireEvent Mouseup s) = Inr s \<and>
           fireEvent (Mousemove p) s = Inr s \<and>
           (\<exists>d. fireEvent Mousedown s = Inr d \<and> mouseButtonDown d \<and> jointActive d)"
proof -
  from constructed_run [OF assms, of evs] obtain s where
    s: "fireEvents evs t = Inr s" "settled (hoverState evs) s"
    by blast
  have "(if mouseButtonDown s then fireEvent Mousedown s else fireEvent Mouseup s) = Inr s"
    by (simp add: mouseDown_same)
  moreover have "fireEvent (Mousemove p) s = Inr s"
    by (simp add: mouseMove_def)
  moreover from mouseDown_settled [OF s(2), of True] obtain d where
    d: "mouseDown True s = Inr d" "settled (hoverState evs) d" "mouseButtonDown d"
    by auto
  from settled_joint [OF d(2)] d(3) have "jointActive d"
    by simp
  with d have "\<exists>d. fireEvent Mousedown s = Inr d \<and> mouseButtonDown d \<and> jointActive d"
    by auto
  ultimately show ?thesis using s(1) by blast
qed

theorem handlers_return_and_repeats_change_nothing_witness:
  "Toy_constructor (1/2) ballSprite ballBody ''toys'' ''ball'' ''ball_over'' = Inr ballToy \<and>
   \<not> mouseButtonDown ballToy \<and>
   (\<exists>s. fireEvents [Mouseup, Mousemove (3, 4), Mouseout, Mouseup] ballToy = Inr s \<and>
        (if mouseButtonDown s then fireEvent Mousedown s else fireEvent Mouseup s) = Inr s \<and>
        fireEvent (Mousemove (10, 5)) s = Inr s \<and>
        (\<exists>d. fireEvent Mousedown s = Inr d \<and> mouseButtonDown d \<and> jointActive d))"
proof -
  note same = handlers_return_and_repeats_change_nothing [OF ballToy_constructed ballToy_up,
      of "[Mouseup, Mousemove (3, 4), Mouseout, Mouseup]" "(10, 5)"]
  from same ballToy_constructed ballToy_up show ?thesis by blast
qed

subsection \<open>The location argument of applyForce\<close>

text \<open>
  Claim C10. \<open>applyForce(amt, loc)\<close> does not use \<open>loc\<close>: for every two locations the
  results are equal, and when the call returns, the body has received \<open>amt\<close> at the
  toy's current position.
\<close>

theorem applyForce_ignores_location:
  "applyForce amt loc1 t = applyForce amt loc2 t \<and>
   (\<forall>s. applyForce amt loc1 t = Inr s \<longrightarrow>
        appliedForces s = appliedForces t @ [(amt, position t)])"
  by (auto simp: applyForce_def appliedForces_def getComponent_def add_def update_conv'
      split: option.splits component.splits)

theorem applyForce_ignores_location_witness:
  "applyForce (3, 4) (7, 7) ballToy = applyForce (3, 4) (0, 0) ballToy \<and>
   (\<exists>s. applyForce (3, 4) (7, 7) ballToy = Inr s \<and>
        appliedForces s = appliedForces ballToy @ [((3, 4), position ballToy)])"
proof -
  note same = applyForce_ignores_location [of "(3, 4)" "(7, 7)" ballToy "(0, 0)"]
  from same ballToy_pushed show ?thesis by blast
qed

end
